theory Spec2Isabelle
  imports Complex_Main
begin

section \<open>Python values that can be offered as path keys\<close>

text \<open>
  The keys of a \<open>Path\<close> are arbitrary Python objects; \<open>Path._is_valid_part\<close> sorts
  them by \<open>isinstance\<close>.  The model lists the built-in kinds the validator names and
  two kinds that it rejects (a list, and any other object, known by its identity).
  A Python \<open>str\<close> is modelled as a \<open>string\<close> whose characters are the code points
  below 256; code points above that are outside the model.

  A \<open>float\<close> is known by its exact rational value, the negative zero, the two
  infinities, or is a NaN.  A NaN is equal to nothing, itself included, so that the
  only way to tell whether two of them are the same is the identity of the object
  holding them (the \<open>float\<close>, or the \<open>complex\<close> of which it is a component): \<open>NaN i\<close> is
  the NaN held by the object of identity \<open>i\<close>, and two distinct objects never carry the
  same \<open>i\<close>.  With this, two values of the model that are the same object are the same
  term, and two values that are the same term are the same object or cannot be told
  apart by \<open>is\<close> followed by \<open>==\<close>.
\<close>

datatype pyfloat = Finite rat | NegZero | PosInf | NegInf | NaN nat

datatype pyval =
    PInt int
  | PBool bool
  | PFloat pyfloat
  | PComplex pyfloat pyfloat
  | PStr string
  | PNone
  | PSlice pyval pyval pyval
  | PTuple "pyval list"
  | PList "pyval list"
  | PClass string
  | PObject nat

datatype error =
    ValueError string
  | ParseError
  | VisitError
  | TypeError
  | RecursionError

datatype path = Path (parts: "pyval list")

text \<open>The second operand of \<open>==\<close> is any object: a \<open>Path\<close> or something else.\<close>

datatype pyobject = APath path | AValue pyval

subsection \<open>\<open>Path._is_valid_part\<close>\<close>

text \<open>
  \<^verbatim>\<open>
  if isinstance(part, (int, float, complex, slice, str, bool)): return True
  if part is None: return True
  if isinstance(part, tuple) and all(cls._is_valid_part(p) for p in part): return True
  return False
  \<close>
\<close>

fun is_valid_part :: "pyval \<Rightarrow> bool" where
  "is_valid_part (PInt _) = True"
| "is_valid_part (PFloat _) = True"
| "is_valid_part (PComplex _ _) = True"
| "is_valid_part (PSlice _ _ _) = True"
| "is_valid_part (PStr _) = True"
| "is_valid_part (PBool _) = True"
| "is_valid_part PNone = True"
| "is_valid_part (PTuple ps) = list_all is_valid_part ps"
| "is_valid_part (PList _) = False"
| "is_valid_part (PClass _) = False"
| "is_valid_part (PObject _) = False"

subsection \<open>Equality of Python values\<close>

text \<open>
  \<open>==\<close> on the built-in kinds: numbers (\<open>bool\<close> is a subclass of \<open>int\<close>) compare by
  value across \<open>int\<close>, \<open>float\<close> and \<open>complex\<close>, and a number with a NaN in it has no
  value and equals nothing; strings and \<open>None\<close> compare by content; any other object
  compares by identity.  Tuples and lists compare their elements with
  \<^verbatim>\<open>PyObject_RichCompareBool\<close>, which answers true for one and the same object before
  it asks \<open>==\<close>; a slice compares as the tuple of its three fields.
\<close>

fun fnum :: "pyfloat \<Rightarrow> (rat + bool) option" where
  "fnum (Finite q) = Some (Inl q)"
| "fnum NegZero = Some (Inl 0)"
| "fnum PosInf = Some (Inr True)"
| "fnum NegInf = Some (Inr False)"
| "fnum (NaN i) = None"

fun num :: "pyval \<Rightarrow> ((rat + bool) \<times> (rat + bool)) option" where
  "num (PInt i) = Some (Inl (of_int i), Inl 0)"
| "num (PBool b) = Some (Inl (if b then 1 else 0), Inl 0)"
| "num (PFloat x) = (case fnum x of Some a \<Rightarrow> Some (a, Inl 0) | None \<Rightarrow> None)"
| "num (PComplex x y) =
     (case fnum x of
        Some a \<Rightarrow> (case fnum y of Some b \<Rightarrow> Some (a, b) | None \<Rightarrow> None)
      | None \<Rightarrow> None)"
| "num _ = None"

primrec py_eq :: "pyval \<Rightarrow> pyval \<Rightarrow> bool" where
  "py_eq (PInt i) y = (case num y of Some b \<Rightarrow> num (PInt i) = Some b | None \<Rightarrow> False)"
| "py_eq (PBool c) y = (case num y of Some b \<Rightarrow> num (PBool c) = Some b | None \<Rightarrow> False)"
| "py_eq (PFloat u) y = (case num y of Some b \<Rightarrow> num (PFloat u) = Some b | None \<Rightarrow> False)"
| "py_eq (PComplex u v) y =
     (case num y of Some b \<Rightarrow> num (PComplex u v) = Some b | None \<Rightarrow> False)"
| "py_eq (PStr s) y = (case y of PStr t \<Rightarrow> s = t | _ \<Rightarrow> False)"
| "py_eq PNone y = (case y of PNone \<Rightarrow> True | _ \<Rightarrow> False)"
| "py_eq (PSlice a b c) y =
     (case y of
        PSlice a' b' c' \<Rightarrow>
          (a = a' \<or> py_eq a a') \<and> (b = b' \<or> py_eq b b') \<and> (c = c' \<or> py_eq c c')
      | _ \<Rightarrow> False)"
| "py_eq (PTuple xs) y =
     (case y of
        PTuple ys \<Rightarrow> list_all2 (\<lambda>(x, e) y. x = y \<or> e y) (map (\<lambda>x. (x, py_eq x)) xs) ys
      | _ \<Rightarrow> False)"
| "py_eq (PList xs) y =
     (case y of
        PList ys \<Rightarrow> list_all2 (\<lambda>(x, e) y. x = y \<or> e y) (map (\<lambda>x. (x, py_eq x)) xs) ys
      | _ \<Rightarrow> False)"
| "py_eq (PClass c) y = (case y of PClass d \<Rightarrow> c = d | _ \<Rightarrow> False)"
| "py_eq (PObject i) y = (case y of PObject j \<Rightarrow> i = j | _ \<Rightarrow> False)"

text \<open>\<open>x is y\<close>, and \<^verbatim>\<open>PyObject_RichCompareBool(x, y, Py_EQ)\<close>: identity first, then \<open>==\<close>.\<close>

definition py_is :: "pyval \<Rightarrow> pyval \<Rightarrow> bool" where
  "py_is x y = (x = y)"

definition RichCompareBool :: "pyval \<Rightarrow> pyval \<Rightarrow> bool" where
  "RichCompareBool x y = (py_is x y \<or> py_eq x y)"

text \<open>A value with no NaN in it.\<close>

fun nan_free_float :: "pyfloat \<Rightarrow> bool" where
  "nan_free_float (NaN i) = False"
| "nan_free_float _ = True"

fun nan_free :: "pyval \<Rightarrow> bool" where
  "nan_free (PFloat x) = nan_free_float x"
| "nan_free (PComplex x y) = (nan_free_float x \<and> nan_free_float y)"
| "nan_free (PSlice a b c) = (nan_free a \<and> nan_free b \<and> nan_free c)"
| "nan_free (PTuple xs) = list_all nan_free xs"
| "nan_free (PList xs) = list_all nan_free xs"
| "nan_free _ = True"

section \<open>What the interpreter and the installed libraries supply\<close>

text \<open>
  Some primitives the module calls are outside the repository and are taken as
  parameters: the shortest-digits \<open>repr\<close> of a \<open>float\<close> and of a \<open>complex\<close>, the
  \<open>repr\<close> of an arbitrary object, \<open>ast.literal_eval\<close> on a float or complex literal,
  the built-in \<open>hash\<close> (salted per process for strings), and the default of Lark's
  option \<open>maybe_placeholders\<close>, which the module does not set (off before Lark 1.0,
  on from 1.0: an unmatched \<open>[x]\<close> then leaves \<open>None\<close> in the tree).
\<close>

record host =
  maybe_placeholders :: bool
  float_repr :: "pyfloat \<Rightarrow> string"
  complex_repr :: "pyfloat \<Rightarrow> pyfloat \<Rightarrow> string"
  object_repr :: "nat \<Rightarrow> string"
  float_literal_eval :: "string \<Rightarrow> error + pyval"
  builtin_hash :: "pyval \<Rightarrow> error + int"

section \<open>\<open>repr\<close> and \<open>str\<close> of the built-in kinds\<close>

abbreviation bslash :: char where "bslash \<equiv> CHR 0x5C"
abbreviation squote :: char where "squote \<equiv> CHR 0x27"
abbreviation dquote :: char where "dquote \<equiv> CHR 0x22"

definition cp :: "char \<Rightarrow> nat" where
  "cp c = of_char c"

definition digit_char :: "nat \<Rightarrow> char" where
  "digit_char d = ''0123456789'' ! d"

function str_of_nat :: "nat \<Rightarrow> string" where
  "str_of_nat n = (if n < 10 then [digit_char n] else str_of_nat (n div 10) @ [digit_char (n mod 10)])"
  by pat_completeness auto
termination
  by (relation "measure id") auto

declare str_of_nat.simps [simp del]

definition str_of_int :: "int \<Rightarrow> string" where
  "str_of_int i = (if i < 0 then CHR ''-'' # str_of_nat (nat (- i)) else str_of_nat (nat i))"

definition hex_char :: "nat \<Rightarrow> char" where
  "hex_char d = ''0123456789abcdef'' ! d"

definition hex_escape :: "char \<Rightarrow> string" where
  "hex_escape c = [bslash, CHR ''x'', hex_char (cp c div 16), hex_char (cp c mod 16)]"

text \<open>Above ASCII, the code points below 256 that are not printable: the C1 controls,
  the no-break space and the soft hyphen.\<close>

definition isprintable :: "char \<Rightarrow> bool" where
  "isprintable c = (\<not> (128 \<le> cp c \<and> cp c \<le> 160) \<and> cp c \<noteq> 173)"

definition str_escape :: "char \<Rightarrow> char \<Rightarrow> string" where
  "str_escape quote c =
     (if c = quote \<or> c = bslash then [bslash, c]
      else if c = CHR 0x09 then [bslash, CHR ''t'']
      else if c = CHR 0x0A then [bslash, CHR ''n'']
      else if c = CHR 0x0D then [bslash, CHR ''r'']
      else if cp c < 32 \<or> cp c = 127 then hex_escape c
      else if cp c < 127 then [c]
      else if \<not> isprintable c then hex_escape c
      else [c])"

definition str_repr :: "string \<Rightarrow> string" where
  "str_repr s =
     (let quote = (if squote \<in> set s \<and> dquote \<notin> set s then dquote else squote)
      in quote # concat (map (str_escape quote) s) @ [quote])"

fun join :: "string \<Rightarrow> string list \<Rightarrow> string" where
  "join sep [] = []"
| "join sep [x] = x"
| "join sep (x # y # ys) = x @ sep @ join sep (y # ys)"

primrec py_repr :: "host \<Rightarrow> pyval \<Rightarrow> string" where
  "py_repr h (PInt i) = str_of_int i"
| "py_repr h (PBool b) = (if b then ''True'' else ''False'')"
| "py_repr h (PFloat x) = float_repr h x"
| "py_repr h (PComplex x y) = complex_repr h x y"
| "py_repr h (PStr s) = str_repr s"
| "py_repr h PNone = ''None''"
| "py_repr h (PSlice a b c) =
     ''slice('' @ py_repr h a @ '', '' @ py_repr h b @ '', '' @ py_repr h c @ '')''"
| "py_repr h (PTuple xs) =
     (case map (py_repr h) xs of
        [] \<Rightarrow> ''()''
      | [r] \<Rightarrow> ''('' @ r @ '',)''
      | rs \<Rightarrow> ''('' @ join '', '' rs @ '')'')"
| "py_repr h (PList xs) = ''['' @ join '', '' (map (py_repr h) xs) @ '']''"
| "py_repr h (PClass c) = ''<class '' @ [squote] @ c @ [squote] @ ''>''"
| "py_repr h (PObject n) = object_repr h n"

definition py_str :: "host \<Rightarrow> pyval \<Rightarrow> string" where
  "py_str h v = (case v of PStr s \<Rightarrow> s | _ \<Rightarrow> py_repr h v)"

text \<open>\<open>str.isidentifier\<close> on code points below 256: the first character is in
  \<open>XID_Start\<close> or is the underscore, the others are in \<open>XID_Continue\<close>.\<close>

definition xid_start :: "char \<Rightarrow> bool" where
  "xid_start c =
     (let n = cp c in
      (65 \<le> n \<and> n \<le> 90) \<or> (97 \<le> n \<and> n \<le> 122) \<or> n = 170 \<or> n = 181 \<or> n = 186 \<or>
      (192 \<le> n \<and> n \<le> 214) \<or> (216 \<le> n \<and> n \<le> 246) \<or> 248 \<le> n)"

definition xid_continue :: "char \<Rightarrow> bool" where
  "xid_continue c =
     (xid_start c \<or> (48 \<le> cp c \<and> cp c \<le> 57) \<or> c = CHR ''_'' \<or> cp c = 183)"

definition isidentifier :: "string \<Rightarrow> bool" where
  "isidentifier s =
     (case s of [] \<Rightarrow> False
      | c # cs \<Rightarrow> (xid_start c \<or> c = CHR ''_'') \<and> list_all xid_continue cs)"

section \<open>The class \<open>Path\<close>\<close>

subsection \<open>\<open>Path.__init__\<close>\<close>

text \<open>
  \<^verbatim>\<open>
  if not self._is_valid_part(parts):
      raise ValueError(f"invalid part(s) {parts}")
  self.parts = parts
  \<close>
  \<open>parts\<close> is the tuple of the positional arguments.
\<close>

definition Path_init :: "host \<Rightarrow> pyval list \<Rightarrow> error + path" where
  "Path_init h ps =
     (if \<not> is_valid_part (PTuple ps)
      then Inl (ValueError (''invalid part(s) '' @ py_repr h (PTuple ps)))
      else Inr (Path ps))"

subsection \<open>\<open>Path.__len__\<close> and \<open>Path.__eq__\<close>\<close>

definition Path_len :: "path \<Rightarrow> nat" where
  "Path_len self = length (parts self)"

text \<open>
  \<^verbatim>\<open>
  if isinstance(other, Path): return self.parts == other.parts
  else: return False
  \<close>
\<close>

definition Path_eq :: "path \<Rightarrow> pyobject \<Rightarrow> bool" where
  "Path_eq self other =
     (case other of
        APath q \<Rightarrow> py_eq (PTuple (parts self)) (PTuple (parts q))
      | AValue _ \<Rightarrow> False)"

subsection \<open>\<open>Path.format_part\<close> and the body of \<open>Path.__repr__\<close>\<close>

text \<open>
  \<^verbatim>\<open>
  if isinstance(part, str) and part.isidentifier():
      return "." + part
  elif isinstance(part, slice):
      fm = [part.start, ":", part.stop]
      if part.step is not None:
          fm += [":", part.step]
      slice_str = "".join([str(f) for f in fm if f is not None])
      return f"[{slice_str}]"
  else:
      return f"[{part!r}]"
  \<close>
\<close>

definition format_part :: "host \<Rightarrow> pyval \<Rightarrow> string" where
  "format_part h part =
     (case part of
        PStr s \<Rightarrow> if isidentifier s then ''.'' @ s else ''['' @ py_repr h part @ '']''
      | PSlice start stop step \<Rightarrow>
          (let fm = [start, PStr '':'', stop] @ (if step \<noteq> PNone then [PStr '':'', step] else []);
               slice_str = concat (map (py_str h) (filter (\<lambda>f. f \<noteq> PNone) fm))
           in ''['' @ slice_str @ '']'')
      | _ \<Rightarrow> ''['' @ py_repr h part @ '']'')"

text \<open>
  \<^verbatim>\<open>
  r = "".join([self.format_part(part) for part in self.parts])
  r = r[1:] if r and r[0] == "." else r
  return r
  \<close>
\<close>

definition Path_repr_body :: "host \<Rightarrow> path \<Rightarrow> string" where
  "Path_repr_body h self =
     (let r = concat (map (format_part h) (parts self))
      in if r \<noteq> [] \<and> hd r = CHR ''.'' then tl r else r)"

subsection \<open>The body of \<open>Path.__hash__\<close>\<close>

text \<open>
  \<^verbatim>\<open>
  hashable_parts = tuple(
      p if not isinstance(p, slice) else (slice, p.start, p.stop, p.step)
      for p in self.parts)
  return hash(hashable_parts)
  \<close>
\<close>

definition hashable_part :: "pyval \<Rightarrow> pyval" where
  "hashable_part p =
     (case p of
        PSlice start stop step \<Rightarrow> PTuple [PClass ''slice'', start, stop, step]
      | _ \<Rightarrow> p)"

definition Path_hash_body :: "host \<Rightarrow> path \<Rightarrow> error + int" where
  "Path_hash_body h self = builtin_hash h (PTuple (map hashable_part (parts self)))"

subsection \<open>\<open>@functools.cache\<close> on \<open>__hash__\<close> and \<open>__repr__\<close>\<close>

text \<open>
  Both methods are wrapped by \<open>functools.cache\<close>.  The wrapper keeps the results in a
  dictionary keyed by the call's arguments, here the tuple \<open>(self,)\<close>, so every call
  first hashes that tuple; hashing a tuple hashes its elements, and hashing \<open>self\<close>
  calls \<open>Path.__hash__(self)\<close>, which is the wrapper again.  Only when that hash
  returns does the wrapper look the key up and, on a miss, call the wrapped function;
  a hit returns the value the function returned before, which is the same value, the
  functions being pure.  \<open>hash_self\<close> is the class's \<open>__hash__\<close> as the wrapper
  reaches it.
\<close>

definition functools_cache ::
  "(path \<Rightarrow> error + int) \<Rightarrow> (path \<Rightarrow> error + 'a) \<Rightarrow> path \<Rightarrow> error + 'a" where
  "functools_cache hash_self f self =
     (case hash_self self of Inl e \<Rightarrow> Inl e | Inr _ \<Rightarrow> f self)"

text \<open>
  The first argument of \<open>Path_hash\<close> and \<open>Path_repr\<close> is the number of nested calls the
  interpreter still allows (its recursion limit less the current depth); exceeding
  it raises \<open>RecursionError\<close>.
\<close>

primrec Path_hash :: "nat \<Rightarrow> host \<Rightarrow> path \<Rightarrow> error + int" where
  "Path_hash 0 h = (\<lambda>self. Inl RecursionError)"
| "Path_hash (Suc depth) h = functools_cache (Path_hash depth h) (Path_hash_body h)"

definition Path_repr :: "nat \<Rightarrow> host \<Rightarrow> path \<Rightarrow> error + string" where
  "Path_repr depth h =
     functools_cache (Path_hash depth h) (\<lambda>self. Inr (Path_repr_body h self))"

section \<open>The terminals of the grammar\<close>

subsection \<open>Regular expressions with backtracking\<close>

text \<open>
  The terminals are Python regular expressions.  Lark's Earley parser with its
  dynamic lexer (the default of \<open>Lark(...)\<close> as the module calls it) asks, at a
  position of the text, for the one match the regular expression engine returns
  there; it does not try the shorter or longer matches.  That match is the first in
  the engine's backtracking order, so the matcher returns the states it can reach in
  that order: an alternative tries its branches from the left, a greedy star tries one
  more repetition before stopping, a lazy star stops before trying one more.

  A state is the character just consumed (for the look-behind) and the text left.
  Every starred expression of this grammar consumes a character per repetition, so as
  many repetitions as there are characters left suffice.
\<close>

datatype rx =
    Cls "char \<Rightarrow> bool"
  | Eps
  | Then rx rx
  | Or rx rx
  | Star rx
  | Lazy rx
  | NotAfter char

type_synonym mstate = "char option \<times> string"

fun greedy :: "(mstate \<Rightarrow> mstate list) \<Rightarrow> nat \<Rightarrow> mstate \<Rightarrow> mstate list" where
  "greedy m 0 st = [st]"
| "greedy m (Suc n) st = concat (map (greedy m n) (m st)) @ [st]"

fun lazy :: "(mstate \<Rightarrow> mstate list) \<Rightarrow> nat \<Rightarrow> mstate \<Rightarrow> mstate list" where
  "lazy m 0 st = [st]"
| "lazy m (Suc n) st = st # concat (map (lazy m n) (m st))"

primrec rx_match :: "rx \<Rightarrow> mstate \<Rightarrow> mstate list" where
  "rx_match (Cls P) st =
     (case snd st of [] \<Rightarrow> [] | c # cs \<Rightarrow> if P c then [(Some c, cs)] else [])"
| "rx_match Eps st = [st]"
| "rx_match (Then a b) st = concat (map (rx_match b) (rx_match a st))"
| "rx_match (Or a b) st = rx_match a st @ rx_match b st"
| "rx_match (Star a) st = greedy (rx_match a) (length (snd st)) st"
| "rx_match (Lazy a) st = lazy (rx_match a) (length (snd st)) st"
| "rx_match (NotAfter c) st = (if fst st = Some c then [] else [st])"

definition Opt :: "rx \<Rightarrow> rx" where "Opt a = Or a Eps"
definition Plus :: "rx \<Rightarrow> rx" where "Plus a = Then a (Star a)"
definition Chars :: "string \<Rightarrow> rx" where "Chars cs = Cls (\<lambda>c. c \<in> set cs)"

text \<open>The match at the start of \<open>s\<close>: the text matched and the text left.\<close>

definition rx_first :: "rx \<Rightarrow> string \<Rightarrow> (string \<times> string) option" where
  "rx_first r s =
     (case rx_match r (None, s) of
        [] \<Rightarrow> None
      | st # _ \<Rightarrow> Some (take (length s - length (snd st)) s, snd st))"

subsection \<open>The numbers\<close>

text \<open>
  \<^verbatim>\<open>
  DEC_NUMBER: /-?\d+/
  HEX_NUMBER: /-?0x[\da-f]*/i
  OCT_NUMBER: /-?0o[0-7]*/i
  BIN_NUMBER : /-?0b[0-1]*/i
  FLOAT_NUMBER: /-?((\d+\.\d*|\.\d+|\d+)(e[-+]?\d+)?|\d+(e[-+]?\d+))/i
  IMAG_NUMBER: (DEC_NUMBER | FLOAT_NUMBER) "j"i
  COMPLEX_NUMBER: IMAG_NUMBER
                | "(" (FLOAT_NUMBER | DEC_NUMBER) /[+-]/ IMAG_NUMBER ")"
  \<close>
  The flag \<open>i\<close> makes the letters match in either case.  Below code point 256 the
  class \<open>\d\<close> holds the ten ASCII digits.
\<close>

definition digit :: rx where "digit = Chars ''0123456789''"

definition DEC_NUMBER :: rx where
  "DEC_NUMBER = Then (Opt (Chars ''-'')) (Plus digit)"

definition HEX_NUMBER :: rx where
  "HEX_NUMBER = Then (Opt (Chars ''-'')) (Then (Chars ''0'') (Then (Chars ''xX'')
     (Star (Chars ''0123456789abcdefABCDEF''))))"

definition OCT_NUMBER :: rx where
  "OCT_NUMBER = Then (Opt (Chars ''-'')) (Then (Chars ''0'') (Then (Chars ''oO'')
     (Star (Chars ''01234567''))))"

definition BIN_NUMBER :: rx where
  "BIN_NUMBER = Then (Opt (Chars ''-'')) (Then (Chars ''0'') (Then (Chars ''bB'')
     (Star (Chars ''01''))))"

definition exponent :: rx where
  "exponent = Then (Chars ''eE'') (Then (Opt (Chars ''-+'')) (Plus digit))"

definition FLOAT_NUMBER :: rx where
  "FLOAT_NUMBER = Then (Opt (Chars ''-''))
     (Or (Then (Or (Then (Plus digit) (Then (Chars ''.'') (Star digit)))
                (Or (Then (Chars ''.'') (Plus digit)) (Plus digit)))
               (Opt exponent))
         (Then (Plus digit) exponent))"

definition IMAG_NUMBER :: rx where
  "IMAG_NUMBER = Then (Or DEC_NUMBER FLOAT_NUMBER) (Chars ''jJ'')"

definition COMPLEX_NUMBER :: rx where
  "COMPLEX_NUMBER = Or IMAG_NUMBER
     (Then (Chars ''('') (Then (Or FLOAT_NUMBER DEC_NUMBER) (Then (Chars ''+-'')
        (Then IMAG_NUMBER (Chars '')'')))))"

subsection \<open>The strings\<close>

text \<open>
  The rule \<open>string\<close> has two terminals, one per quote character \<open>q\<close>: the quote, any
  characters but the newline (lazily), a position not preceded by a backslash, pairs
  of backslashes (lazily), the quote.
\<close>

definition STRING :: "char \<Rightarrow> rx" where
  "STRING q = Then (Chars [q]) (Then (Lazy (Cls (\<lambda>c. c \<noteq> CHR 0x0A)))
     (Then (NotAfter bslash) (Then (Lazy (Then (Chars [bslash]) (Chars [bslash]))) (Chars [q]))))"

subsection \<open>The identifiers\<close>

text \<open>
  \<open>ID_START\<close> is one or more characters of the general categories Lu, Ll, Lt, Lm, Lo,
  Nl or the underscore; \<open>ID_CONTINUE\<close> is \<open>ID_START\<close> or one or more characters of the
  categories Mn, Mc, Nd, Pc or the middle dot (code point 183).  Below code point 256
  the letters are those of Lu, Ll and Lo, the only Nd are the ASCII digits and the only
  Pc is the underscore.
\<close>

definition letter :: "char \<Rightarrow> bool" where
  "letter c =
     (let n = cp c in
      (65 \<le> n \<and> n \<le> 90) \<or> (192 \<le> n \<and> n \<le> 214) \<or> (216 \<le> n \<and> n \<le> 222) \<or>
      (97 \<le> n \<and> n \<le> 122) \<or> n = 181 \<or> (223 \<le> n \<and> n \<le> 246) \<or> 248 \<le> n \<or>
      n = 170 \<or> n = 186)"

definition id_start_char :: "char \<Rightarrow> bool" where
  "id_start_char c = (letter c \<or> c = CHR ''_'')"

definition id_continue_char :: "char \<Rightarrow> bool" where
  "id_continue_char c = ((48 \<le> cp c \<and> cp c \<le> 57) \<or> c = CHR ''_'' \<or> cp c = 183)"

definition ID_START :: rx where
  "ID_START = Plus (Cls id_start_char)"

definition ID_CONTINUE :: rx where
  "ID_CONTINUE = Or ID_START (Plus (Cls id_continue_char))"

section \<open>The rules of the grammar\<close>

text \<open>
  A parse tree is a rule's name over its children; a child is a tree, a token or, with
  \<open>maybe_placeholders\<close>, the \<open>None\<close> that stands for an unmatched \<open>[x]\<close>.  An
  anonymous string of a rule leaves no token unless the rule starts with \<open>!\<close>; a rule
  that starts with \<open>?\<close> and has one child is replaced by the child.

  The Earley parser finds every derivation.  An item of a rule, run on a text, returns
  every way it matches a prefix: the children it contributes and the text left.
\<close>

datatype rule = R_path | R_identifier | R_slice_key | R_number | R_none | R_boolean
  | R_string | R_tuple_key

datatype tree = Tree rule "tree list" | Token string | Placeholder

type_synonym item = "string \<Rightarrow> (tree list \<times> string) list"

text \<open>A terminal given by a regular expression, an anonymous string, a string a \<open>!\<close>
  rule keeps, a sequence, an alternative, \<open>[x]\<close> (with the number of children \<open>x\<close>
  can leave), \<open>x*\<close>, \<open>x+\<close>, and a rule's node.\<close>

definition tok :: "rx \<Rightarrow> item" where
  "tok r s = (case rx_first r s of None \<Rightarrow> [] | Some (w, rest) \<Rightarrow> [([Token w], rest)])"

definition lit :: "string \<Rightarrow> item" where
  "lit w s = (if take (length w) s = w then [([], drop (length w) s)] else [])"

definition kept :: "string \<Rightarrow> item" where
  "kept w s = (if take (length w) s = w then [([Token w], drop (length w) s)] else [])"

definition seq :: "item \<Rightarrow> item \<Rightarrow> item" where
  "seq a b s = concat (map (\<lambda>(xs, r). map (\<lambda>(ys, r'). (xs @ ys, r')) (b r)) (a s))"

definition alt :: "item \<Rightarrow> item \<Rightarrow> item" where
  "alt a b s = a s @ b s"

definition maybe :: "host \<Rightarrow> nat \<Rightarrow> item \<Rightarrow> item" where
  "maybe h n a s =
     a s @ [(if maybe_placeholders h then replicate n Placeholder else [], s)]"

fun star_n :: "item \<Rightarrow> nat \<Rightarrow> item" where
  "star_n a 0 s = [([], s)]"
| "star_n a (Suc n) s =
     concat (map (\<lambda>(xs, r). map (\<lambda>(ys, r'). (xs @ ys, r')) (star_n a n r)) (a s)) @ [([], s)]"

definition star :: "item \<Rightarrow> item" where
  "star a s = star_n a (length s) s"

definition plus :: "item \<Rightarrow> item" where
  "plus a = seq a (star a)"

definition node :: "rule \<Rightarrow> item \<Rightarrow> item" where
  "node r a s = map (\<lambda>(cs, rest). ([Tree r cs], rest)) (a s)"

text \<open>
  \<^verbatim>\<open>
  number: DEC_NUMBER | HEX_NUMBER | BIN_NUMBER | OCT_NUMBER | FLOAT_NUMBER | COMPLEX_NUMBER
  ?integer: DEC_NUMBER | HEX_NUMBER | BIN_NUMBER | OCT_NUMBER
  !slice_key: [integer] ":" [integer]
            | [integer] ":" [integer] ":" [integer]
  string: /"..."/ | /'...'/
  !none: "None"
  !boolean: "True" | "False"
  identifier: ID_START ID_CONTINUE*
  \<close>
\<close>

definition number :: item where
  "number = node R_number (alt (tok DEC_NUMBER) (alt (tok HEX_NUMBER) (alt (tok BIN_NUMBER)
     (alt (tok OCT_NUMBER) (alt (tok FLOAT_NUMBER) (tok COMPLEX_NUMBER))))))"

definition integer :: item where
  "integer = alt (tok DEC_NUMBER) (alt (tok HEX_NUMBER) (alt (tok BIN_NUMBER) (tok OCT_NUMBER)))"

definition slice_key :: "host \<Rightarrow> item" where
  "slice_key h = node R_slice_key
     (alt (seq (maybe h 1 integer) (seq (kept '':'') (maybe h 1 integer)))
          (seq (maybe h 1 integer) (seq (kept '':'') (seq (maybe h 1 integer)
             (seq (kept '':'') (maybe h 1 integer))))))"

definition string_rule :: item where
  "string_rule = node R_string (alt (tok (STRING dquote)) (tok (STRING squote)))"

definition none :: item where
  "none = node R_none (kept ''None'')"

definition boolean :: item where
  "boolean = node R_boolean (alt (kept ''True'') (kept ''False''))"

definition identifier_rule :: item where
  "identifier_rule = node R_identifier (seq (tok ID_START) (star (tok ID_CONTINUE)))"

text \<open>
  \<^verbatim>\<open>
  tuple_key: "()"
           | "(" key ",)"
           | "(" key ("," key)+ [","] ")"
  ?key: number | slice_key | boolean | none | string | tuple_key
  \<close>
  \<open>key\<close> and \<open>tuple_key\<close> call each other; the first argument of \<open>key\<close> bounds the
  nesting of tuples.  Every level of nesting consumes a parenthesis, so the length of
  the text is bound enough.
\<close>

definition tuple_key :: "item \<Rightarrow> item" where
  "tuple_key key = node R_tuple_key
     (alt (lit ''()'')
     (alt (seq (lit ''('') (seq key (lit '',)'')))
          (seq (lit ''('') (seq key (seq (plus (seq (lit '','') key))
             (seq (alt (lit '','') (lit [])) (lit '')'')))))))"

primrec key :: "nat \<Rightarrow> host \<Rightarrow> item" where
  "key 0 h = (\<lambda>s. [])"
| "key (Suc n) h = alt number (alt (slice_key h) (alt boolean (alt none (alt string_rule
     (tuple_key (key n h))))))"

text \<open>
  \<^verbatim>\<open>
  path: [(identifier | "[" key "]") ("." identifier | "[" key "]")*]
  \<close>
  The bracketed expression can leave one child.
\<close>

definition path_rule :: "host \<Rightarrow> item" where
  "path_rule h s =
     (let k = key (length s) h in
      node R_path (maybe h 1
        (seq (alt identifier_rule (seq (lit ''['') (seq k (lit '']''))))
             (star (alt (seq (lit ''.'') identifier_rule) (seq (lit ''['') (seq k (lit '']''))))))) s)"

text \<open>\<open>path_parser.parse\<close>: a tree of a derivation of the whole text, or a parse error.\<close>

definition path_parser_parse :: "host \<Rightarrow> string \<Rightarrow> error + tree" where
  "path_parser_parse h s =
     (case filter (\<lambda>(ts, rest). rest = []) (path_rule h s) of
        ([t], _) # _ \<Rightarrow> Inr t
      | _ \<Rightarrow> Inl ParseError)"

section \<open>\<open>PathTransformer\<close>\<close>

text \<open>
  Lark's \<open>Transformer\<close> works from the leaves up: it calls the method named after a
  rule on the list of the rule's transformed children (a token is a \<open>str\<close>, a
  placeholder is \<open>None\<close>), and wraps whatever a method raises in a \<open>VisitError\<close>.
\<close>

definition is_digits :: "string \<Rightarrow> bool" where
  "is_digits s = (s \<noteq> [] \<and> list_all (\<lambda>c. c \<in> set ''0123456789'') s)"

definition digit_val :: "char \<Rightarrow> nat" where
  "digit_val c = (if cp c \<le> 57 then cp c - 48 else if cp c \<le> 70 then cp c - 55 else cp c - 87)"

definition nat_of :: "nat \<Rightarrow> string \<Rightarrow> nat" where
  "nat_of base s = foldl (\<lambda>a c. base * a + digit_val c) 0 s"

text \<open>\<open>int(a)\<close> on a token of the grammar reads it in base ten and raises on any other
  character than a leading minus sign and digits.\<close>

definition py_int :: "string \<Rightarrow> error + int" where
  "py_int s =
     (case s of
        c # t \<Rightarrow> if c = CHR ''-'' \<and> is_digits t then Inr (- int (nat_of 10 t))
                 else if is_digits s then Inr (int (nat_of 10 s)) else Inl VisitError
      | [] \<Rightarrow> Inl VisitError)"

text \<open>
  \<open>ast.literal_eval\<close> on a token of \<open>number\<close>.  An integer literal of Python, the sign
  apart, is a run of digits that does not start with a zero unless it is all zeros, or
  \<open>0x\<close>, \<open>0o\<close>, \<open>0b\<close> (in either case) and at least one digit of that base;
  a run of digits or a prefix that is not such a literal is a syntax error.  Any other
  text is a float or complex literal, left to the interpreter.
\<close>

definition int_literal :: "string \<Rightarrow> (error + int) option" where
  "int_literal s =
     (if is_digits s then
        Some (if hd s \<noteq> CHR ''0'' \<or> list_all (\<lambda>c. c = CHR ''0'') s
              then Inr (int (nat_of 10 s)) else Inl VisitError)
      else case s of
        z # x # ds \<Rightarrow>
          if z = CHR ''0'' \<and> x \<in> set ''xX'' then
            Some (if ds \<noteq> [] \<and> list_all (\<lambda>c. c \<in> set ''0123456789abcdefABCDEF'') ds
                  then Inr (int (nat_of 16 ds)) else Inl VisitError)
          else if z = CHR ''0'' \<and> x \<in> set ''oO'' then
            Some (if ds \<noteq> [] \<and> list_all (\<lambda>c. c \<in> set ''01234567'') ds
                  then Inr (int (nat_of 8 ds)) else Inl VisitError)
          else if z = CHR ''0'' \<and> x \<in> set ''bB'' then
            Some (if ds \<noteq> [] \<and> list_all (\<lambda>c. c \<in> set ''01'') ds
                  then Inr (int (nat_of 2 ds)) else Inl VisitError)
          else None
      | _ \<Rightarrow> None)"

definition literal_eval :: "host \<Rightarrow> string \<Rightarrow> error + pyval" where
  "literal_eval h s =
     (case int_literal (if s \<noteq> [] \<and> hd s = CHR ''-'' then tl s else s) of
        Some (Inr n) \<Rightarrow> Inr (PInt (if s \<noteq> [] \<and> hd s = CHR ''-'' then - n else n))
      | Some (Inl e) \<Rightarrow> Inl e
      | None \<Rightarrow> float_literal_eval h s)"

text \<open>
  \<^verbatim>\<open>
  def slice_key(args):
      sargs = [None, None, None]
      i = 0
      for a in args:
          if a == ":":
              i += 1
          else:
              sargs[i] = int(a) if a is not None else None
      return slice(*sargs)
  \<close>
\<close>

fun slice_loop :: "pyval list \<Rightarrow> nat \<Rightarrow> pyval list \<Rightarrow> error + pyval list" where
  "slice_loop [] i sargs = Inr sargs"
| "slice_loop (a # args) i sargs =
     (if py_eq a (PStr '':'') then slice_loop args (i + 1) sargs
      else if i \<ge> length sargs then Inl VisitError
      else case a of
        PNone \<Rightarrow> slice_loop args i (sargs[i := PNone])
      | PStr w \<Rightarrow> (case py_int w of Inl e \<Rightarrow> Inl e | Inr n \<Rightarrow> slice_loop args i (sargs[i := PInt n]))
      | _ \<Rightarrow> Inl VisitError)"

text \<open>
  The methods, by rule:
  \<^verbatim>\<open>
  identifier(args): return str(args[0])
  slice_key(args):  the loop above
  number(args):     return literal_eval(args[0])
  none(_):          return None
  boolean(args):    return {"True": True, "False": False}[args[0]]
  string(args):     return args[0][1:-1]
  tuple_key(args):  return tuple(args)
  \<close>
  \<open>path\<close> is the root's method and is applied in \<open>PathTransformer\<close> below.
\<close>

definition callback :: "host \<Rightarrow> rule \<Rightarrow> pyval list \<Rightarrow> error + pyval" where
  "callback h r args =
     (case r of
        R_identifier \<Rightarrow> (case args of a # _ \<Rightarrow> Inr a | [] \<Rightarrow> Inl VisitError)
      | R_slice_key \<Rightarrow>
          (case slice_loop args 0 [PNone, PNone, PNone] of
             Inr [a, b, c] \<Rightarrow> Inr (PSlice a b c) | _ \<Rightarrow> Inl VisitError)
      | R_number \<Rightarrow> (case args of PStr w # _ \<Rightarrow> literal_eval h w | _ \<Rightarrow> Inl VisitError)
      | R_none \<Rightarrow> Inr PNone
      | R_boolean \<Rightarrow>
          (case args of
             PStr w # _ \<Rightarrow> if w = ''True'' then Inr (PBool True)
                          else if w = ''False'' then Inr (PBool False) else Inl VisitError
           | _ \<Rightarrow> Inl VisitError)
      | R_string \<Rightarrow> (case args of PStr w # _ \<Rightarrow> Inr (PStr (butlast (tl w))) | _ \<Rightarrow> Inl VisitError)
      | R_tuple_key \<Rightarrow> Inr (PTuple args)
      | R_path \<Rightarrow> Inl VisitError)"

fun sequence :: "(error + 'a) list \<Rightarrow> error + 'a list" where
  "sequence [] = Inr []"
| "sequence (Inl e # xs) = Inl e"
| "sequence (Inr x # xs) = (case sequence xs of Inl e \<Rightarrow> Inl e | Inr ys \<Rightarrow> Inr (x # ys))"

primrec transform :: "host \<Rightarrow> tree \<Rightarrow> error + pyval" where
  "transform h (Token w) = Inr (PStr w)"
| "transform h Placeholder = Inr PNone"
| "transform h (Tree r ts) =
     (case sequence (map (transform h) ts) of Inl e \<Rightarrow> Inl e | Inr args \<Rightarrow> callback h r args)"

text \<open>\<open>path(args)\<close> returns \<open>Path(*args)\<close>.\<close>

definition PathTransformer :: "host \<Rightarrow> tree \<Rightarrow> error + path" where
  "PathTransformer h t =
     (case t of
        Tree R_path ts \<Rightarrow>
          (case sequence (map (transform h) ts) of
             Inl e \<Rightarrow> Inl e
           | Inr args \<Rightarrow> (case Path_init h args of Inl e \<Rightarrow> Inl VisitError | Inr p \<Rightarrow> Inr p))
      | _ \<Rightarrow> Inl VisitError)"

subsection \<open>\<open>Path.from_str\<close>\<close>

text \<open>
  \<^verbatim>\<open>
  tree = path_parser.parse(str_path)
  new_path = PathTransformer().transform(tree)
  return new_path
  \<close>
\<close>

definition from_str :: "host \<Rightarrow> string \<Rightarrow> error + path" where
  "from_str h str_path =
     (case path_parser_parse h str_path of
        Inl e \<Rightarrow> Inl e
      | Inr tree \<Rightarrow> PathTransformer h tree)"

section \<open>The key kinds the specification admits\<close>


section \<open>Identifiers over all of Unicode\<close>

text \<open>
  The strings of the model stop at code point 255.  What the grammar's identifier
  rule and \<open>str.isidentifier\<close> accept beyond that depends on tables of the Unicode
  Character Database, which are not part of the repository: the general category of
  a code point (for the classes of \<open>ID_START\<close> and \<open>ID_CONTINUE\<close>) and the derived
  properties \<open>XID_Start\<close> and \<open>XID_Continue\<close> (for \<open>str.isidentifier\<close>).  Here a
  string is a list of code points and the tables are parameters.
\<close>

datatype category = Lu | Ll | Lt | Lm | Lo | Nl | Mn | Mc | Nd | Pc | Other_category

record unicode =
  general_category :: "nat \<Rightarrow> category"
  XID_Start :: "nat \<Rightarrow> bool"
  XID_Continue :: "nat \<Rightarrow> bool"

text \<open>The classes of the two terminals: the underscore is code point 95, the middle dot
  is code point 183.\<close>

definition in_ID_START :: "unicode \<Rightarrow> nat \<Rightarrow> bool" where
  "in_ID_START u c = (general_category u c \<in> {Lu, Ll, Lt, Lm, Lo, Nl} \<or> c = 95)"

definition in_ID_CONTINUE :: "unicode \<Rightarrow> nat \<Rightarrow> bool" where
  "in_ID_CONTINUE u c = (general_category u c \<in> {Mn, Mc, Nd, Pc} \<or> c = 183)"

text \<open>\<open>identifier: ID_START ID_CONTINUE*\<close>, where \<open>ID_START\<close> is a run of characters
  of its class and \<open>ID_CONTINUE\<close> is \<open>ID_START\<close> or a run of characters of its own
  class: a string the rule matches starts with a character of the first class and goes
  on with characters of either class.\<close>

definition identifier_matches :: "unicode \<Rightarrow> nat list \<Rightarrow> bool" where
  "identifier_matches u s =
     (case s of [] \<Rightarrow> False
      | c # cs \<Rightarrow> in_ID_START u c \<and> list_all (\<lambda>x. in_ID_START u x \<or> in_ID_CONTINUE u x) cs)"

definition str_isidentifier :: "unicode \<Rightarrow> nat list \<Rightarrow> bool" where
  "str_isidentifier u s =
     (case s of [] \<Rightarrow> False
      | c # cs \<Rightarrow> (XID_Start u c \<or> c = 95) \<and> list_all (XID_Continue u) cs)"

section \<open>Construction and validation\<close>






section \<open>Equality\<close>

lemma py_eq_tuple:
  "py_eq (PTuple xs) (PTuple ys) = list_all2 RichCompareBool xs ys"
proof -
  have "RichCompareBool = (\<lambda>x y. x = y \<or> py_eq x y)"
    by (simp add: fun_eq_iff RichCompareBool_def py_is_def)
  then show ?thesis by (simp add: list_all2_map1)
qed

lemma fnum_nan_free: "nan_free_float x \<Longrightarrow> fnum x \<noteq> None"
  by (cases x) simp_all

text \<open>\<open>==\<close> is reflexive on every value that holds no NaN.\<close>

lemma py_eq_refl: "nan_free v \<Longrightarrow> py_eq v v"
proof (induction v)
  case (PFloat x) then show ?case using fnum_nan_free [of x] by auto
next
  case (PComplex x y) then show ?case using fnum_nan_free [of x] fnum_nan_free [of y] by auto
next
  case (PTuple xs) then show ?case by (simp add: list_all2_map1 list_all2_same)
next
  case (PList xs) then show ?case by (simp add: list_all2_map1 list_all2_same)
qed simp_all

lemma RichCompareBool_nan_free:
  "nan_free a \<Longrightarrow> RichCompareBool a b = py_eq a b"
  using py_eq_refl [of a] by (auto simp: RichCompareBool_def py_is_def)

text \<open>
  Claim C3, as the code has it.  \<open>p == x\<close> is \<open>False\<close> for every \<open>x\<close> that is not a
  \<open>Path\<close>.  For a \<open>Path\<close> \<open>q\<close> it is \<open>True\<close> exactly when the two key sequences have the
  same length and, at every position, the two keys are one and the same object or are
  equal by value; where no key of \<open>p\<close> holds a NaN this is the claim's own wording: the
  same length and keys equal by value at every position.  \<open>Path_eq\<close> has no error
  result: the comparison reads only the two key sequences, so it cannot depend on the
  text a path was parsed from, and nothing it calls on the modelled values raises.
\<close>

theorem Path_eq_pairwise:
  "Path_eq p (AValue x) = False
   \<and> Path_eq p (APath q) = list_all2 RichCompareBool (parts p) (parts q)
   \<and> (list_all nan_free (parts p) \<longrightarrow>
        Path_eq p (APath q) = list_all2 py_eq (parts p) (parts q))"
proof -
  have a: "Path_eq p (APath q) = list_all2 RichCompareBool (parts p) (parts q)"
    by (simp only: Path_eq_def pyobject.case py_eq_tuple)
  have "list_all2 RichCompareBool ps qs = list_all2 py_eq ps qs" if "list_all nan_free ps" for ps qs
    using that
  proof (induction ps arbitrary: qs)
    case Nil then show ?case by simp
  next
    case (Cons a ps) then show ?case
      by (cases qs) (simp_all add: RichCompareBool_nan_free)
  qed
  with a show ?thesis by (simp add: Path_eq_def)
qed

text \<open>
  The theorem of claim C3 at three pairs of paths with no NaN: \<open>Path(1, "a", 2.0)\<close> and
  \<open>Path(True, "a", 2)\<close> are equal; \<open>Path(1, "a")\<close> and \<open>Path(1, "b")\<close> are not; \<open>Path(1)\<close>
  and \<open>Path(1, 1)\<close>, of different lengths, are not.
\<close>

theorem Path_eq_pairwise_witness:
  "Path_eq (Path [PInt 1, PStr ''a'', PFloat (Finite 2)])
     (APath (Path [PBool True, PStr ''a'', PInt 2]))
   \<and> \<not> Path_eq (Path [PInt 1, PStr ''a'']) (APath (Path [PInt 1, PStr ''b'']))
   \<and> \<not> Path_eq (Path [PInt 1]) (APath (Path [PInt 1, PInt 1]))"
  using Path_eq_pairwise [of "Path [PInt 1, PStr ''a'', PFloat (Finite 2)]" PNone
      "Path [PBool True, PStr ''a'', PInt 2]"]
    Path_eq_pairwise [of "Path [PInt 1, PStr ''a'']" PNone "Path [PInt 1, PStr ''b'']"]
    Path_eq_pairwise [of "Path [PInt 1]" PNone "Path [PInt 1, PInt 1]"]
  by (simp add: RichCompareBool_def py_is_def)

text \<open>
  Claim C3 as the specification words it, equality exactly when the keys are pairwise
  equal by value, fails on a NaN key.  With \<open>n = float("nan")\<close>, the path \<open>Path(n)\<close> is
  equal to \<open>Path(n)\<close>, built on the same object, although \<open>n == n\<close> is false; built on
  two distinct NaN objects the two paths are not equal.
\<close>

theorem Path_eq_nan:
  "Path_eq (Path [PFloat (NaN 0)]) (APath (Path [PFloat (NaN 0)]))
   \<and> \<not> list_all2 py_eq (parts (Path [PFloat (NaN 0)])) (parts (Path [PFloat (NaN 0)]))
   \<and> \<not> Path_eq (Path [PFloat (NaN 0)]) (APath (Path [PFloat (NaN 1)]))"
  by (simp add: Path_eq_def)

section \<open>Evaluating the parser on a given text\<close>

text \<open>\<open>key\<close> is unfolded only on a text that has a first character, so that it is not
  unfolded under the binders of the items around it.\<close>

declare key.simps [simp del]

lemma key_Cons:
  "key (Suc n) h (c # cs) =
     alt number (alt (slice_key h) (alt boolean (alt none (alt string_rule
       (tuple_key (key n h)))))) (c # cs)"
  by (simp add: key.simps)

lemmas rx_defs = rx_first_def DEC_NUMBER_def HEX_NUMBER_def OCT_NUMBER_def BIN_NUMBER_def
  FLOAT_NUMBER_def IMAG_NUMBER_def COMPLEX_NUMBER_def STRING_def ID_START_def ID_CONTINUE_def
  exponent_def Opt_def Plus_def Chars_def digit_def letter_def cp_def id_start_char_def
  id_continue_char_def

lemmas item_defs = tok_def lit_def kept_def seq_def alt_def maybe_def star_def plus_def node_def
  number_def integer_def slice_key_def string_rule_def none_def boolean_def identifier_rule_def
  tuple_key_def path_rule_def path_parser_parse_def key_Cons

lemmas tr_defs = PathTransformer_def from_str_def callback_def literal_eval_def int_literal_def
  py_int_def is_digits_def nat_of_def digit_val_def Path_init_def

lemmas repr_defs = Path_repr_body_def format_part_def py_str_def str_of_int_def
  str_of_nat.simps digit_char_def isidentifier_def xid_start_def xid_continue_def cp_def
  str_repr_def str_escape_def isprintable_def

section \<open>The cached methods never return\<close>

lemma Path_hash_raises: "Path_hash depth h p = Inl RecursionError"
  by (induction depth arbitrary: p) (simp_all add: functools_cache_def)

lemma Path_repr_raises: "Path_repr depth h p = Inl RecursionError"
  by (simp add: Path_repr_def functools_cache_def Path_hash_raises)

text \<open>
  Claim C4.  The claim is that \<open>hash\<close> returns an integer that depends only on the key
  sequence, the same for equal paths and on every call, a slice entering as the tuple
  \<open>(slice, start, stop, step)\<close>.  The body of \<open>__hash__\<close> is written that way
  (\<open>Path_hash_body\<close>), but the method is wrapped in \<open>functools.cache\<close>, whose lookup
  hashes \<open>self\<close> and so calls the method again: whatever the depth the interpreter
  allows, for every path, \<open>hash\<close> raises \<open>RecursionError\<close> and returns no integer.
\<close>

theorem Path_hash_never_returns:
  "Path_hash depth h p = Inl RecursionError \<and> Path_hash depth h q = Inl RecursionError"
  by (simp add: Path_hash_raises)

section \<open>Scenarios\<close>

lemma parse_0_x_slice:
  "from_str h ''[0].x[1:5:2]'' = Inr (Path [PInt 0, PStr ''x'', PSlice (PInt 1) (PInt 5) (PInt 2)])"
  by (simp add: rx_defs item_defs tr_defs)

lemma repr_body_0_x_slice:
  "Path_repr_body h (Path [PInt 0, PStr ''x'', PSlice (PInt 1) (PInt 5) (PInt 2)]) = ''[0].x[1:5:2]''"
  by (simp add: repr_defs)

text \<open>
  Claim C7.  \<open>Path(0, "x", slice(1, 5, 2))\<close> is constructed, the body of \<open>__repr__\<close>
  computes \<open>[0].x[1:5:2]\<close> for it, and parsing that text returns the same path; but
  \<open>repr\<close> of the path, the canonical string of the claim, goes through
  \<open>functools.cache\<close> and raises \<open>RecursionError\<close>.
\<close>

theorem scenario_0_x_slice:
  "Path_init h [PInt 0, PStr ''x'', PSlice (PInt 1) (PInt 5) (PInt 2)]
     = Inr (Path [PInt 0, PStr ''x'', PSlice (PInt 1) (PInt 5) (PInt 2)])
   \<and> Path_repr depth h (Path [PInt 0, PStr ''x'', PSlice (PInt 1) (PInt 5) (PInt 2)])
     = Inl RecursionError
   \<and> Path_repr_body h (Path [PInt 0, PStr ''x'', PSlice (PInt 1) (PInt 5) (PInt 2)])
     = ''[0].x[1:5:2]''
   \<and> from_str h ''[0].x[1:5:2]''
     = Inr (Path [PInt 0, PStr ''x'', PSlice (PInt 1) (PInt 5) (PInt 2)])"
  by (simp add: Path_repr_raises parse_0_x_slice repr_body_0_x_slice Path_init_def)

text \<open>
  Claim C9.  \<open>Path(True) == Path(1)\<close> and \<open>Path(False) == Path(0)\<close> hold, and the
  bodies of \<open>__repr__\<close> give \<open>[True]\<close> and \<open>[1]\<close>; but neither the hashes nor the
  canonical strings the claim compares exist: \<open>hash\<close> and \<open>repr\<close> raise
  \<open>RecursionError\<close> on both paths.
\<close>

theorem bool_and_int_keys:
  "Path_eq (Path [PBool True]) (APath (Path [PInt 1]))
   \<and> Path_eq (Path [PBool False]) (APath (Path [PInt 0]))
   \<and> Path_hash depth h (Path [PBool True]) = Inl RecursionError
   \<and> Path_hash depth h (Path [PInt 1]) = Inl RecursionError
   \<and> Path_repr depth h (Path [PBool True]) = Inl RecursionError
   \<and> Path_repr depth h (Path [PInt 1]) = Inl RecursionError
   \<and> Path_repr_body h (Path [PBool True]) = ''[True]''
   \<and> Path_repr_body h (Path [PInt 1]) = ''[1]''"
  by (simp add: Path_repr_raises Path_hash_raises Path_eq_def repr_defs)

lemma parse_empty:
  "from_str h [] = Inr (Path (if maybe_placeholders h then [PNone] else []))"
  by (simp add: rx_defs item_defs tr_defs)

text \<open>
  Claim C10.  \<open>Path()\<close> is constructed and has length 0, and the body of \<open>__repr__\<close>
  computes the empty string for it; but \<open>repr\<close> of it raises \<open>RecursionError\<close>, and
  parsing the empty string returns the empty path only where Lark leaves no
  placeholder for the unmatched bracket of the rule \<open>path\<close>: with placeholders (Lark
  1.0 and later) the tree has the child \<open>None\<close> and the result is \<open>Path(None)\<close>, of
  length 1.
\<close>

theorem empty_path:
  "Path_init h [] = Inr (Path [])
   \<and> Path_len (Path []) = 0
   \<and> Path_repr depth h (Path []) = Inl RecursionError
   \<and> Path_repr_body h (Path []) = []
   \<and> from_str h [] = Inr (Path (if maybe_placeholders h then [PNone] else []))"
  by (simp add: Path_repr_raises parse_empty Path_init_def Path_len_def Path_repr_body_def)

text \<open>
  Claim C6.  The method \<open>string\<close> returns the token without its first and last
  character and resolves no escape sequence: the key parsed from the five characters
  quote, backslash, backslash, quote between brackets is the two backslashes, not one,
  and the key parsed from \<open>"a\"b"\<close> keeps the backslash before the quote.
\<close>

theorem string_keeps_escapes:
  "transform h (Tree R_string [Token w]) = Inr (PStr (butlast (tl w)))
   \<and> from_str h (''['' @ [squote, bslash, bslash, squote] @ '']'') = Inr (Path [PStr [bslash, bslash]])
   \<and> from_str h (''['' @ [dquote, CHR ''a'', bslash, dquote, CHR ''b'', dquote] @ '']'')
       = Inr (Path [PStr [CHR ''a'', bslash, dquote, CHR ''b'']])"
  by (simp add: rx_defs item_defs tr_defs)

section \<open>The identifier rule and \<open>str.isidentifier\<close>\<close>

text \<open>
  Claim C8.  The claim is that every string the identifier rule matches is an identifier
  for \<open>str.isidentifier\<close>.  The rule admits every character of category Lo, and
  \<open>XID_Continue\<close> leaves some of them out (those whose compatibility normalisation is
  no identifier).  With the facts of the Unicode tables that U+0041 is an uppercase
  letter in \<open>XID_Start\<close> and that U+FDFA is of category Lo and not in \<open>XID_Continue\<close>,
  the two-character string U+0041 U+FDFA is matched by the rule and is not an
  identifier: the string the repository's test file records as
  \<open>identifier failure\<close>.
\<close>

theorem identifier_rule_accepts_non_identifier:
  assumes "general_category u 0x41 = Lu" and "XID_Start u 0x41"
    and "general_category u 0xFDFA = Lo" and "\<not> XID_Continue u 0xFDFA"
  shows "identifier_matches u [0x41, 0xFDFA] \<and> \<not> str_isidentifier u [0x41, 0xFDFA]"
  using assms by (simp add: identifier_matches_def str_isidentifier_def in_ID_START_def)

theorem identifier_rule_accepts_non_identifier_witness:
  "identifier_matches
     \<lparr>general_category = (\<lambda>c. if c = 0x41 then Lu else if c = 0xFDFA then Lo else Other_category),
      XID_Start = (\<lambda>c. c = 0x41), XID_Continue = (\<lambda>c. c = 0x41)\<rparr> [0x41, 0xFDFA]
   \<and> \<not> str_isidentifier
     \<lparr>general_category = (\<lambda>c. if c = 0x41 then Lu else if c = 0xFDFA then Lo else Other_category),
      XID_Start = (\<lambda>c. c = 0x41), XID_Continue = (\<lambda>c. c = 0x41)\<rparr> [0x41, 0xFDFA]"
  by (rule identifier_rule_accepts_non_identifier) simp_all

end
